theory Spec2Isabelle
  imports Main
begin

section \<open>Data model of \<^verbatim>\<open>apply/apply.go\<close>\<close>

text \<open>
  The package applies a stream of manifests to a cluster.  Its collaborators (the YAML
  decoder, the REST mapper, the dynamic client, the patch libraries and the helpers of
  the package \<^verbatim>\<open>util\<close>) are not part of the file; they are parameters of the model.
  Logging (\<^verbatim>\<open>klog\<close>) has no effect on results and is left out.
\<close>

type_synonym bytes = string

text \<open>
  The content of the \<^verbatim>\<open>Object\<close> map of an \<^verbatim>\<open>unstructured.Unstructured\<close>, read through
  the typed accessors the code uses.  \<open>Body\<close> is everything else in the document.
\<close>

record Unstructured =
  GetAPIVersion :: string
  GetKind :: string
  GetName :: string
  GetGenerateName :: string
  GetNamespace :: string
  GetAnnotations :: "string \<rightharpoonup> string"
  GetManagedFields :: "string list"
  Body :: string

text \<open>\<^verbatim>\<open>corev1.LastAppliedConfigAnnotation\<close>\<close>

definition LastAppliedConfigAnnotation :: string where
  "LastAppliedConfigAnnotation = ''kubectl.kubernetes.io/last-applied-configuration''"

datatype GroupVersionKind = GroupVersionKind (gvk_Group: string) (gvk_Version: string) (gvk_Kind: string)

definition GroupKind :: "GroupVersionKind \<Rightarrow> string \<times> string" where
  "GroupKind gvk = (gvk_Group gvk, gvk_Kind gvk)"

text \<open>
  Errors as values.  The first three constructors are errors handed over by a
  collaborator; every other constructor is one \<^verbatim>\<open>fmt.Errorf\<close> site of the file and
  carries the arguments of its format string (\<^verbatim>\<open>%v\<close> of an error that may be nil is an
  \<open>error option\<close>).  The message text \<^verbatim>\<open>err.Error()\<close> is represented by the error value
  it is rendered from.
\<close>

datatype error =
    EOF
  | StatusError nat string
  | LibError string
  | ParsingSection nat "error option"
  | CannotUseGenerateName string
  | ServerSideApplyNotAvailable error
  | RetrievingModified string error
  | RetrievingCurrent string error
  | CreatingError string error
  | SerializingCurrent error
  | RetrievingOriginal string error
  | IdentityChanged
  | UnableToApplyPatch error
  | GettingVersionedObject GroupVersionKind error

text \<open>A call either returns or panics (a method call through a nil pointer or a nil interface).\<close>

datatype 'a outcome = Panic | Returns 'a

datatype RESTScopeName = RESTScopeNameNamespace | RESTScopeNameRoot

record RESTMapping =
  mapping_Resource :: string
  mapping_Scope :: RESTScopeName

text \<open>\<^verbatim>\<open>restMapper.RESTMapping(groupKind, version)\<close>\<close>

type_synonym RESTMapper = "string \<times> string \<Rightarrow> string \<Rightarrow> error + RESTMapping"

subsection \<open>The dynamic client\<close>

text \<open>
  A \<^verbatim>\<open>dynamic.ResourceInterface\<close> is a resource with the namespace it is scoped to; the
  empty namespace is the unscoped handle \<^verbatim>\<open>dynamicClient.Resource(r)\<close>.
\<close>

record ResourceInterface =
  dri_resource :: string
  dri_namespace :: string

definition Resource :: "string \<Rightarrow> ResourceInterface" where
  "Resource r = \<lparr>dri_resource = r, dri_namespace = []\<rparr>"

definition Namespace :: "ResourceInterface \<Rightarrow> string \<Rightarrow> ResourceInterface" where
  "Namespace dri ns = dri\<lparr>dri_namespace := ns\<rparr>"

datatype PatchType = ApplyPatchType | MergePatchType | StrategicMergePatchType

record PatchOptions =
  FieldManager :: string
  Force :: "bool option"

text \<open>
  The requests the code sends.  A create request carries the object as it is when the
  call is made.
\<close>

datatype call =
    GetCall ResourceInterface string
  | CreateCall ResourceInterface Unstructured
  | PatchCall ResourceInterface string PatchType bytes PatchOptions

text \<open>
  Every request returns a pair \<^verbatim>\<open>(*unstructured.Unstructured, error)\<close>; either component
  may be nil.  The server is deterministic in the requests it has seen so far, so the
  client is a function of that history and the request, and the state the code threads
  is the list of requests sent.
\<close>

type_synonym response = "Unstructured option \<times> error option"
type_synonym DynamicInterface = "call list \<Rightarrow> call \<Rightarrow> response"

subsection \<open>Shared object maps\<close>

text \<open>
  An \<^verbatim>\<open>unstructured.Unstructured\<close> is a struct around a Go map, and a map is a
  reference: \<^verbatim>\<open>ApplyUnstructured\<close> receives the struct by value, yet its setters write
  into the map the caller's struct points to.  The store maps a reference to the content
  of the map behind it, and a struct value is its reference.  Objects returned by the
  server are fresh and only read, so they are plain values.
\<close>

type_synonym ref = nat

record world =
  heap :: "ref \<Rightarrow> Unstructured"
  calls :: "call list"

definition SetNamespace :: "world \<Rightarrow> ref \<Rightarrow> string \<Rightarrow> world" where
  "SetNamespace w u ns = w\<lparr>heap := (heap w)(u := (heap w u)\<lparr>GetNamespace := ns\<rparr>)\<rparr>"

definition SetAnnotations :: "world \<Rightarrow> ref \<Rightarrow> (string \<rightharpoonup> string) \<Rightarrow> world" where
  "SetAnnotations w u annotations = w\<lparr>heap := (heap w)(u := (heap w u)\<lparr>GetAnnotations := annotations\<rparr>)\<rparr>"

definition SetManagedFields :: "world \<Rightarrow> ref \<Rightarrow> string list \<Rightarrow> world" where
  "SetManagedFields w u managedFields = w\<lparr>heap := (heap w)(u := (heap w u)\<lparr>GetManagedFields := managedFields\<rparr>)\<rparr>"

definition invoke :: "DynamicInterface \<Rightarrow> call \<Rightarrow> world \<Rightarrow> response \<times> world" where
  "invoke dynamicClient c w = (dynamicClient (calls w) c, w\<lparr>calls := calls w @ [c]\<rparr>)"

subsection \<open>Collaborators\<close>

text \<open>
  The functions of other packages the file calls.  A Go result \<^verbatim>\<open>(value, error)\<close> of
  which exactly one is set is a sum, \<open>Inl\<close> the error.
  \<^item> \<open>meta_Accessor\<close> is \<^verbatim>\<open>meta.Accessor\<close> applied to the struct passed by value at the
    validation step; \<open>None\<close> is nil metadata (the code discards the error).
  \<^item> \<open>MarshalJSON\<close> is \<^verbatim>\<open>(*Unstructured).MarshalJSON\<close>.
  \<^item> \<open>Serializer_Decode\<close> is \<^verbatim>\<open>yaml.NewDecodingSerializer(UnstructuredJSONScheme).Decode\<close>.
  \<^item> \<open>ConvertSingleObjectToUnstructured\<close>, \<open>GetModifiedConfiguration\<close> and
    \<open>GetOriginalConfiguration\<close> are helpers of the package \<^verbatim>\<open>util\<close>;
    \<open>EncodeCanonical\<close> is the serialization \<^verbatim>\<open>util.CreateApplyAnnotation\<close> stamps.
  \<^item> \<open>Scheme_New\<close> is \<^verbatim>\<open>Scheme.New\<close> of the package's type registry.
  \<^item> \<open>CreateThreeWayJSONMergePatch\<close> takes the keys its \<^verbatim>\<open>RequireKeyUnchanged\<close>
    preconditions name.
\<close>

record env =
  meta_Accessor :: "Unstructured \<Rightarrow> Unstructured option"
  MarshalJSON :: "Unstructured \<Rightarrow> error + bytes"
  Serializer_Decode :: "bytes \<Rightarrow> error + (Unstructured \<times> GroupVersionKind)"
  ConvertSingleObjectToUnstructured :: "Unstructured \<Rightarrow> error + Unstructured"
  GetModifiedConfiguration :: "Unstructured \<Rightarrow> bool \<Rightarrow> error + bytes"
  GetOriginalConfiguration :: "Unstructured \<Rightarrow> error + bytes"
  EncodeCanonical :: "Unstructured \<Rightarrow> error + bytes"
  IsNotFound :: "error \<Rightarrow> bool"
  Scheme_New :: "GroupVersionKind \<Rightarrow> error + string"
  IsNotRegisteredError :: "error \<Rightarrow> bool"
  CreateThreeWayJSONMergePatch :: "bytes \<Rightarrow> bytes \<Rightarrow> bytes \<Rightarrow> string list \<Rightarrow> error + bytes"
  IsPreconditionFailed :: "error \<Rightarrow> bool"
  NewPatchMetaFromStruct :: "string \<Rightarrow> error + string"
  CreateThreeWayMergePatch :: "bytes \<Rightarrow> bytes \<Rightarrow> bytes \<Rightarrow> string \<Rightarrow> bool \<Rightarrow> error + bytes"
  GetAPIGroupResources :: "nat \<Rightarrow> error + nat"
  NewDiscoveryRESTMapper :: "nat \<Rightarrow> RESTMapper"

record applyOptions =
  dynamicClient :: DynamicInterface
  discoveryClient :: nat
  serverSide :: bool

text \<open>\<open>ErrMessage\<close> holds \<^verbatim>\<open>err.Error()\<close>, the text of the error it is given here.\<close>

record FailedObject =
  Name :: string
  Kind :: string
  ErrMessage :: error

section \<open>The functions of the file\<close>

definition NewApplyOptions :: "DynamicInterface \<Rightarrow> nat \<Rightarrow> applyOptions" where
  "NewApplyOptions dc disc = \<lparr>dynamicClient = dc, discoveryClient = disc, serverSide = False\<rparr>"

definition WithServerSide :: "applyOptions \<Rightarrow> bool \<Rightarrow> applyOptions" where
  "WithServerSide opts s = opts\<lparr>serverSide := s\<rparr>"

definition ToRESTMapper :: "env \<Rightarrow> applyOptions \<Rightarrow> error + RESTMapper" where
  "ToRESTMapper env opts =
     (case GetAPIGroupResources env (discoveryClient opts) of
        Inl err \<Rightarrow> Inl err
      | Inr gr \<Rightarrow> Inr (NewDiscoveryRESTMapper env gr))"

subsection \<open>\<^verbatim>\<open>Decode\<close>\<close>

text \<open>
  The byte buffer is seen through \<^verbatim>\<open>yamlutil.NewYAMLOrJSONDecoder\<close>: it is the list of
  the results of the successive \<^verbatim>\<open>decoder.Decode\<close> calls, a raw document or an error;
  past the end of the list the decoder returns \<^verbatim>\<open>io.EOF\<close>.

  The loop state is the list built so far, the counter \<open>i\<close> and the function-level
  variable \<^verbatim>\<open>err\<close>.  Inside the loop body \<^verbatim>\<open>obj, gvk, err := ...\<close> declares a new
  \<^verbatim>\<open>err\<close>: the errors of the serializer and of the conversion are assigned to that inner
  variable, and the outer one keeps the nil of the \<^verbatim>\<open>decoder.Decode\<close> that succeeded.
\<close>

type_synonym stream = "(error + bytes) list"

fun Decode_loop ::
  "env \<Rightarrow> stream \<Rightarrow> Unstructured list \<Rightarrow> nat \<Rightarrow> Unstructured list \<times> nat \<times> error option" where
  "Decode_loop env [] unstructList i = (unstructList, i, Some EOF)"
| "Decode_loop env (Inl err # rest) unstructList i = (unstructList, i, Some err)"
| "Decode_loop env (Inr raw # rest) unstructList i =
     (case Serializer_Decode env raw of
        Inl err1 \<Rightarrow> (unstructList, i, None)
      | Inr (obj, gvk) \<Rightarrow>
          (case ConvertSingleObjectToUnstructured env obj of
             Inl err2 \<Rightarrow> (unstructList, i, None)
           | Inr unstruct \<Rightarrow> Decode_loop env rest (unstructList @ [unstruct]) (i + 1)))"

definition Decode :: "env \<Rightarrow> stream \<Rightarrow> Unstructured list \<times> error option" where
  "Decode env data =
     (case Decode_loop env data [] 1 of
        (unstructList, i, err) \<Rightarrow>
          if err \<noteq> Some EOF then (unstructList, Some (ParsingSection i err))
          else (unstructList, None))"

subsection \<open>\<^verbatim>\<open>Patch\<close>\<close>

definition Patch ::
  "env \<Rightarrow> Unstructured \<Rightarrow> bytes \<Rightarrow> string \<Rightarrow> GroupVersionKind \<Rightarrow> error + (bytes \<times> PatchType)" where
  "Patch env currentUnstr modified nm gvk =
     (case MarshalJSON env currentUnstr of
        Inl err \<Rightarrow> Inl (SerializingCurrent err)
      | Inr current \<Rightarrow>
     (case GetOriginalConfiguration env currentUnstr of
        Inl err \<Rightarrow> Inl (RetrievingOriginal nm err)
      | Inr original \<Rightarrow>
     (case Scheme_New env gvk of
        Inl err \<Rightarrow>
          if IsNotRegisteredError env err then
            (case CreateThreeWayJSONMergePatch env original modified current
                    [''apiVersion'', ''kind'', ''name''] of
               Inl err' \<Rightarrow>
                 if IsPreconditionFailed env err' then Inl IdentityChanged
                 else Inl (UnableToApplyPatch err')
             | Inr patch \<Rightarrow> Inr (patch, MergePatchType))
          else Inl (GettingVersionedObject gvk err)
      | Inr versionedObject \<Rightarrow>
          (case NewPatchMetaFromStruct env versionedObject of
             Inl err \<Rightarrow> Inl err
           | Inr lookupPatchMeta \<Rightarrow>
               (case CreateThreeWayMergePatch env original modified current lookupPatchMeta True of
                  Inl err \<Rightarrow> Inl err
                | Inr patch \<Rightarrow> Inr (patch, StrategicMergePatchType))))))"

definition isIncompatibleServerError :: "error \<Rightarrow> bool" where
  "isIncompatibleServerError err =
     (case err of StatusError code msg \<Rightarrow> code = 415 | _ \<Rightarrow> False)"

subsection \<open>\<^verbatim>\<open>ApplyUnstructured\<close>\<close>

text \<open>
  Modelled from the spec: \<^verbatim>\<open>util.CreateApplyAnnotation\<close> is not in the sources.  The
  spec's \<^verbatim>\<open>stampConfiguration(obj)\<close> "serializes the object [...] to its canonical byte
  form and writes it into the object's annotations under a reserved key, returning an
  error if serialization fails".  It is called with \<^verbatim>\<open>&unstructuredObj\<close>, so it writes to
  the shared map.
\<close>

definition CreateApplyAnnotation :: "env \<Rightarrow> world \<Rightarrow> ref \<Rightarrow> world \<times> error option" where
  "CreateApplyAnnotation env w u =
     (case EncodeCanonical env (heap w u) of
        Inl err \<Rightarrow> (w, Some err)
      | Inr modified \<Rightarrow>
          (SetAnnotations w u ((GetAnnotations (heap w u))(LastAppliedConfigAnnotation \<mapsto> modified)),
           None))"

text \<open>Lines 128 to 134: the check of the name.\<close>

definition validate :: "env \<Rightarrow> Unstructured \<Rightarrow> error option outcome" where
  "validate env unstructuredObj =
     (if length (GetName unstructuredObj) = 0 then
        (case meta_Accessor env unstructuredObj of
           None \<Rightarrow> Panic
         | Some metadata \<Rightarrow>
             (let generateName = GetGenerateName metadata in
              if length generateName > 0 then Returns (Some (CannotUseGenerateName generateName))
              else Returns None))
      else Returns None)"

text \<open>
  Lines 136 to 160: serialize the object, decode it again for its group, version and
  kind, resolve the mapping, default the namespace and pick the resource handle.  The
  bytes \<open>b\<close> are taken before the namespace is defaulted.
\<close>

definition resolve ::
  "env \<Rightarrow> RESTMapper \<Rightarrow> ref \<Rightarrow> world \<Rightarrow>
     error + (bytes \<times> Unstructured \<times> GroupVersionKind \<times> ResourceInterface \<times> world)" where
  "resolve env restMapper u w =
     (case MarshalJSON env (heap w u) of
        Inl err \<Rightarrow> Inl err
      | Inr b \<Rightarrow>
     (case Serializer_Decode env b of
        Inl err \<Rightarrow> Inl err
      | Inr (obj, gvk) \<Rightarrow>
     (case restMapper (GroupKind gvk) (gvk_Version gvk) of
        Inl err \<Rightarrow> Inl err
      | Inr mapping \<Rightarrow>
          (let w1 = (if mapping_Scope mapping = RESTScopeNameNamespace
                        \<and> GetNamespace (heap w u) = []
                     then SetNamespace w u ''default'' else w);
               dri = (if mapping_Scope mapping = RESTScopeNameNamespace
                      then Namespace (Resource (mapping_Resource mapping)) (GetNamespace (heap w1 u))
                      else Resource (mapping_Resource mapping))
           in Inr (b, obj, gvk, dri, w1)))))"

text \<open>Lines 162 to 181: server-side apply.  The payload is the \<open>b\<close> of line 136.\<close>

definition serverSideApply ::
  "DynamicInterface \<Rightarrow> ResourceInterface \<Rightarrow> ref \<Rightarrow> bytes \<Rightarrow> world \<Rightarrow> response outcome \<times> world" where
  "serverSideApply dc dri u b w =
     (let w1 = (if GetAnnotations (heap w u) LastAppliedConfigAnnotation \<noteq> None
                then SetAnnotations w u
                       ((GetAnnotations (heap w u))(LastAppliedConfigAnnotation := None))
                else w);
          w2 = SetManagedFields w1 u [];
          opts = \<lparr>FieldManager = ''k8sutil'', Force = Some True\<rparr>
      in case invoke dc (PatchCall dri (GetName (heap w2 u)) ApplyPatchType b opts) w2 of
           ((live, Some err), w3) \<Rightarrow>
             (Returns (None, Some (if isIncompatibleServerError err
                                   then ServerSideApplyNotAvailable err else err)), w3)
         | ((live, None), w3) \<Rightarrow> (Returns (None, None), w3))"

text \<open>
  Lines 183 to 215: get, then create or patch.  At line 205 \<^verbatim>\<open>meta.Accessor\<close> receives
  the pointer \<^verbatim>\<open>currentUnstr\<close> and hands it back; its result only feeds a warning, but
  the method call on it dereferences the pointer, which panics when the client returned
  neither an object nor an error.
\<close>

definition classicApply ::
  "env \<Rightarrow> DynamicInterface \<Rightarrow> ResourceInterface \<Rightarrow> ref \<Rightarrow> Unstructured \<Rightarrow> GroupVersionKind \<Rightarrow>
     world \<Rightarrow> response outcome \<times> world" where
  "classicApply env dc dri u obj gvk w =
     (case GetModifiedConfiguration env obj True of
        Inl err \<Rightarrow> (Returns (None, Some (RetrievingModified (GetName (heap w u)) err)), w)
      | Inr modified \<Rightarrow>
     (case invoke dc (GetCall dri (GetName (heap w u))) w of
        ((currentUnstr, Some err), w1) \<Rightarrow>
          if \<not> IsNotFound env err then
            (Returns (None, Some (RetrievingCurrent (GetName (heap w1 u)) err)), w1)
          else
            (case CreateApplyAnnotation env w1 u of
               (w2, Some err') \<Rightarrow> (Returns (None, Some (CreatingError (GetName (heap w2 u)) err')), w2)
             | (w2, None) \<Rightarrow>
                 (case invoke dc (CreateCall dri (heap w2 u)) w2 of
                    (created, w3) \<Rightarrow> (Returns created, w3)))
      | ((None, None), w1) \<Rightarrow> (Panic, w1)
      | ((Some current, None), w1) \<Rightarrow>
          (case Patch env current modified (GetName (heap w1 u)) gvk of
             Inl err \<Rightarrow> (Returns (None, Some err), w1)
           | Inr (patchBytes, patchType) \<Rightarrow>
               (case invoke dc (PatchCall dri (GetName (heap w1 u)) patchType patchBytes
                                  \<lparr>FieldManager = [], Force = None\<rparr>) w1 of
                  (patched, w2) \<Rightarrow> (Returns patched, w2)))))"

text \<open>The whole function: the four blocks in the order of the source.\<close>

definition ApplyUnstructured ::
  "env \<Rightarrow> DynamicInterface \<Rightarrow> RESTMapper \<Rightarrow> ref \<Rightarrow> bool \<Rightarrow> world \<Rightarrow> response outcome \<times> world" where
  "ApplyUnstructured env dc restMapper u ss w =
     (case validate env (heap w u) of
        Panic \<Rightarrow> (Panic, w)
      | Returns (Some err) \<Rightarrow> (Returns (None, Some err), w)
      | Returns None \<Rightarrow>
     (case resolve env restMapper u w of
        Inl err \<Rightarrow> (Returns (None, Some err), w)
      | Inr (b, obj, gvk, dri, w1) \<Rightarrow>
          if ss then serverSideApply dc dri u b w1
          else classicApply env dc dri u obj gvk w1))"

subsection \<open>\<^verbatim>\<open>Apply\<close>\<close>

text \<open>
  The loop over the decoded objects.  \<^verbatim>\<open>object\<close> is the pointer \<^verbatim>\<open>ApplyUnstructured\<close>
  returned; \<^verbatim>\<open>object.GetName()\<close> reads through it and panics when it is nil.  The
  \<^verbatim>\<open>err\<close> of the \<^verbatim>\<open>if\<close> statement is local to it.
\<close>

fun Apply_loop ::
  "env \<Rightarrow> DynamicInterface \<Rightarrow> RESTMapper \<Rightarrow> bool \<Rightarrow> ref list \<Rightarrow> FailedObject list \<Rightarrow> world \<Rightarrow>
     FailedObject list outcome \<times> world" where
  "Apply_loop env dc restMapper ss [] failedObjects w = (Returns failedObjects, w)"
| "Apply_loop env dc restMapper ss (unstruct # rest) failedObjects w =
     (case ApplyUnstructured env dc restMapper unstruct ss w of
        (Panic, w') \<Rightarrow> (Panic, w')
      | (Returns (object, None), w') \<Rightarrow> Apply_loop env dc restMapper ss rest failedObjects w'
      | (Returns (None, Some err), w') \<Rightarrow> (Panic, w')
      | (Returns (Some ob, Some err), w') \<Rightarrow>
          Apply_loop env dc restMapper ss rest
            (failedObjects @ [\<lparr>Name = GetName ob, Kind = GetKind ob, ErrMessage = err\<rparr>]) w')"

text \<open>
  \<^verbatim>\<open>Apply\<close> starts from the requests \<open>tr\<close> the server has seen.  The maps of the decoded
  objects are the store, the \<open>k\<close>-th object behind reference \<open>k\<close>.  Besides the two
  results of the Go function, the model returns the final state: the requests sent and
  the content of the decoded objects' maps.
\<close>

definition Apply ::
  "env \<Rightarrow> applyOptions \<Rightarrow> stream \<Rightarrow> call list \<Rightarrow>
     (FailedObject list \<times> error option) outcome \<times> call list \<times> Unstructured list" where
  "Apply env opts data tr =
     (case ToRESTMapper env opts of
        Inl err \<Rightarrow> (Returns ([], Some err), tr, [])
      | Inr restMapper \<Rightarrow>
     (case Decode env data of
        (unstructList, Some err) \<Rightarrow> (Returns ([], Some err), tr, unstructList)
      | (unstructList, None) \<Rightarrow>
          (case Apply_loop env (dynamicClient opts) restMapper (serverSide opts)
                  [0..<length unstructList] [] \<lparr>heap = nth unstructList, calls = tr\<rparr> of
             (Panic, w) \<Rightarrow> (Panic, calls w, map (heap w) [0..<length unstructList])
           | (Returns failedObjects, w) \<Rightarrow>
               (Returns (failedObjects, None), calls w, map (heap w) [0..<length unstructList]))))"

section \<open>Vocabulary of the properties\<close>

text \<open>
  What one entry of the stream decodes to: the object, when the decoder, the serializer
  and the conversion all succeed on it.
\<close>

fun decoded :: "env \<Rightarrow> error + bytes \<Rightarrow> Unstructured option" where
  "decoded env (Inl err) = None"
| "decoded env (Inr raw) =
     (case Serializer_Decode env raw of
        Inl err \<Rightarrow> None
      | Inr (obj, gvk) \<Rightarrow>
          (case ConvertSingleObjectToUnstructured env obj of
             Inl err \<Rightarrow> None
           | Inr unstruct \<Rightarrow> Some unstruct))"

text \<open>An object without the last-applied annotation and without managed fields.\<close>

definition stripped :: "Unstructured \<Rightarrow> Unstructured" where
  "stripped obj = obj\<lparr>GetAnnotations := (GetAnnotations obj)(LastAppliedConfigAnnotation := None),
                       GetManagedFields := []\<rparr>"


text \<open>The resource handle a request is sent through.\<close>

fun call_dri :: "call \<Rightarrow> ResourceInterface" where
  "call_dri (GetCall dri nm) = dri"
| "call_dri (CreateCall dri obj) = dri"
| "call_dri (PatchCall dri nm pt b opts) = dri"


section \<open>A small cluster to run the functions on\<close>

definition configMap :: Unstructured where
  "configMap = \<lparr>GetAPIVersion = ''v1'', GetKind = ''ConfigMap'', GetName = ''settings'',
     GetGenerateName = [], GetNamespace = [], GetAnnotations = Map.empty,
     GetManagedFields = [], Body = ''data''\<rparr>"

definition generated :: Unstructured where
  "generated = configMap\<lparr>GetName := [], GetGenerateName := ''job-''\<rparr>"

definition unnamed :: Unstructured where
  "unnamed = configMap\<lparr>GetName := []\<rparr>"

definition namespaceProd :: Unstructured where
  "namespaceProd = configMap\<lparr>GetKind := ''Namespace'', GetName := ''prod''\<rparr>"

definition secret :: Unstructured where
  "secret = configMap\<lparr>GetKind := ''Secret'', GetName := ''token''\<rparr>"

definition widget :: Unstructured where
  "widget = \<lparr>GetAPIVersion = ''example.com/v1'', GetKind = ''Widget'', GetName = ''w1'',
     GetGenerateName = [], GetNamespace = ''prod'',
     GetAnnotations = [LastAppliedConfigAnnotation \<mapsto> ''old''],
     GetManagedFields = [''kubectl''], Body = ''spec''\<rparr>"

definition gadget :: Unstructured where
  "gadget = widget\<lparr>GetKind := ''Gadget''\<rparr>"

text \<open>
  A toy serialization that shows the kind, the names and whether the annotation and the
  managed fields are part of the document.
\<close>

definition render :: "Unstructured \<Rightarrow> bytes" where
  "render u = GetKind u @ ''/'' @ GetName u @ GetGenerateName u
     @ (if GetAnnotations u LastAppliedConfigAnnotation \<noteq> None then ''+annotation'' else [])
     @ (if GetManagedFields u \<noteq> [] then ''+managedFields'' else [])"

definition documents :: "Unstructured list" where
  "documents = [configMap, generated, unnamed, namespaceProd, secret, widget, gadget]"

definition parse :: "bytes \<Rightarrow> error + (Unstructured \<times> GroupVersionKind)" where
  "parse b = (case find (\<lambda>u. render u = b) documents of
                None \<Rightarrow> Inl (LibError ''syntax'')
              | Some u \<Rightarrow> Inr (u, GroupVersionKind [] (GetAPIVersion u) (GetKind u)))"

definition mapper :: RESTMapper where
  "mapper gk version =
     (if snd gk = ''Namespace'' then Inr \<lparr>mapping_Resource = ''namespaces'', mapping_Scope = RESTScopeNameRoot\<rparr>
      else if snd gk = ''ConfigMap'' then Inr \<lparr>mapping_Resource = ''configmaps'', mapping_Scope = RESTScopeNameNamespace\<rparr>
      else if snd gk = ''Secret'' then Inr \<lparr>mapping_Resource = ''secrets'', mapping_Scope = RESTScopeNameNamespace\<rparr>
      else if snd gk = ''Widget'' \<or> snd gk = ''Gadget'' then Inr \<lparr>mapping_Resource = ''widgets'', mapping_Scope = RESTScopeNameNamespace\<rparr>
      else Inl (LibError ''no match''))"

text \<open>
  The environment takes the behaviour of \<^verbatim>\<open>meta.Accessor\<close> on a struct passed by value as
  its argument.  The three-way JSON merge fails its preconditions when the kind of the
  modified document is not the kind of the current one.  As in
  \<^verbatim>\<open>k8s.io/apimachinery/pkg/util/jsonmergepatch\<close>, it reports that failure as a plain error
  (\<^verbatim>\<open>meetPreconditions\<close> returns \<^verbatim>\<open>fmt.Errorf("precondition failed for: ...")\<close>), which is
  not a \<^verbatim>\<open>mergepatch.ErrPreconditionFailed\<close>, the one error \<^verbatim>\<open>IsPreconditionFailed\<close> accepts.
\<close>

definition cluster_env :: "(Unstructured \<Rightarrow> Unstructured option) \<Rightarrow> env" where
  "cluster_env accessor = \<lparr>
     meta_Accessor = accessor,
     MarshalJSON = (\<lambda>u. Inr (render u)),
     Serializer_Decode = parse,
     ConvertSingleObjectToUnstructured = Inr,
     GetModifiedConfiguration = (\<lambda>u annotate. Inr (render u)),
     GetOriginalConfiguration =
       (\<lambda>u. Inr (case GetAnnotations u LastAppliedConfigAnnotation of None \<Rightarrow> [] | Some v \<Rightarrow> v)),
     EncodeCanonical = (\<lambda>u. Inr (render u)),
     IsNotFound = (\<lambda>err. case err of StatusError code msg \<Rightarrow> code = 404 | _ \<Rightarrow> False),
     Scheme_New = (\<lambda>gvk. if gvk_Kind gvk = ''ConfigMap'' \<or> gvk_Kind gvk = ''Namespace''
                         then Inr (gvk_Kind gvk) else Inl (LibError ''not registered'')),
     IsNotRegisteredError = (\<lambda>err. err = LibError ''not registered''),
     CreateThreeWayJSONMergePatch =
       (\<lambda>original modified current keys.
          if ''kind'' \<in> set keys
             \<and> takeWhile (\<lambda>c. c \<noteq> CHR ''/'') modified \<noteq> takeWhile (\<lambda>c. c \<noteq> CHR ''/'') current
          then Inl (LibError ''precondition failed for: kind'')
          else Inr (''merge:'' @ modified)),
     IsPreconditionFailed = (\<lambda>err. err = LibError ''ErrPreconditionFailed''),
     NewPatchMetaFromStruct = Inr,
     CreateThreeWayMergePatch =
       (\<lambda>original modified current lookupPatchMeta overwrite. Inr (''strategic:'' @ modified)),
     GetAPIGroupResources = (\<lambda>d. if d = 0 then Inl (LibError ''unreachable'') else Inr d),
     NewDiscoveryRESTMapper = (\<lambda>gr. mapper)\<rparr>"

text \<open>
  What \<^verbatim>\<open>meta.Accessor\<close> of \<^verbatim>\<open>k8s.io/apimachinery\<close> returns for an
  \<^verbatim>\<open>unstructured.Unstructured\<close> passed by value: every method of the type has a pointer
  receiver, so the value satisfies none of the interfaces \<^verbatim>\<open>Accessor\<close> switches on and the
  result is nil with an error.  \<open>accessor_of_pointer\<close> is what the code would get from
  \<^verbatim>\<open>&unstructuredObj\<close>.
\<close>

definition accessor_of_value :: "Unstructured \<Rightarrow> Unstructured option" where
  "accessor_of_value u = None"

definition accessor_of_pointer :: "Unstructured \<Rightarrow> Unstructured option" where
  "accessor_of_pointer u = Some u"

text \<open>
  The client and the server behind it: a get without a name is refused by the client; the
  widget \<^verbatim>\<open>w1\<close> and the namespace \<^verbatim>\<open>prod\<close> exist, reading \<^verbatim>\<open>token\<close> is forbidden, nothing
  else exists; a strategic merge patch is answered with the object and a conflict, any
  other patch with the object.
\<close>

definition cluster :: DynamicInterface where
  "cluster history c =
     (case c of
        GetCall dri nm \<Rightarrow>
          if nm = [] then (None, Some (LibError ''name is required''))
          else if nm = ''w1'' then (Some widget, None)
          else if nm = ''prod'' then (Some namespaceProd, None)
          else if nm = ''token'' then (None, Some (StatusError 403 ''forbidden''))
          else (None, Some (StatusError 404 ''not found''))
      | CreateCall dri obj \<Rightarrow> (Some obj, None)
      | PatchCall dri nm pt b opts \<Rightarrow>
          if pt = StrategicMergePatchType then (Some namespaceProd, Some (StatusError 409 ''conflict''))
          else (Some widget, None))"

definition start :: "Unstructured \<Rightarrow> world" where
  "start obj = \<lparr>heap = (\<lambda>r. obj), calls = []\<rparr>"

definition options :: "bool \<Rightarrow> applyOptions" where
  "options ss = WithServerSide (NewApplyOptions cluster 1) ss"


section \<open>Properties of \<^verbatim>\<open>Decode\<close>\<close>

lemmas fixture_defs = cluster_env_def parse_def documents_def render_def configMap_def generated_def
  unnamed_def namespaceProd_def secret_def widget_def gadget_def LastAppliedConfigAnnotation_def

lemmas run_defs = ApplyUnstructured_def validate_def resolve_def classicApply_def serverSideApply_def
  CreateApplyAnnotation_def Patch_def invoke_def SetNamespace_def SetAnnotations_def SetManagedFields_def
  isIncompatibleServerError_def Resource_def Namespace_def GroupKind_def cluster_def mapper_def start_def
  accessor_of_value_def accessor_of_pointer_def stripped_def Let_def

lemmas batch_defs = Apply_def ToRESTMapper_def Decode_def options_def NewApplyOptions_def
  WithServerSide_def

text \<open>Documents that decode are appended in order and counted.\<close>

lemma Decode_loop_prefix:
  "map (decoded env) pre = map Some objs \<Longrightarrow>
   Decode_loop env (pre @ rest) acc i = Decode_loop env rest (acc @ objs) (i + length pre)"
proof (induction pre arbitrary: acc i objs)
  case Nil
  then show ?case by simp
next
  case (Cons d pre)
  from Cons.prems obtain x xs where objs: "objs = x # xs" and dx: "decoded env d = Some x"
    and rest: "map (decoded env) pre = map Some xs"
    by (cases objs) auto
  from dx obtain raw where d: "d = Inr raw" by (cases d) auto
  from dx d obtain obj gvk where s: "Serializer_Decode env raw = Inr (obj, gvk)"
    and c: "ConvertSingleObjectToUnstructured env obj = Inr x"
    by (auto split: sum.splits prod.splits)
  show ?case using Cons.IH [OF rest, of "acc @ [x]" "i + 1"] by (simp add: d s c objs)
qed

text \<open>
  The loop stops at a document that does not decode.  Only an error of the decoder itself
  reaches the function-level \<^verbatim>\<open>err\<close>.
\<close>

lemma Decode_loop_malformed:
  "decoded env bad = None \<Longrightarrow> bad \<noteq> Inl EOF \<Longrightarrow>
   Decode_loop env (bad # post) acc i = (acc, i, case bad of Inl err \<Rightarrow> Some err | Inr raw \<Rightarrow> None)"
  by (cases bad) (auto split: sum.splits prod.splits)

text \<open>
  A stream whose documents all decode gives their objects in the order of the documents and
  no error; the empty stream gives no object and no error.
\<close>

theorem Decode_well_formed:
  assumes "map (decoded env) ds = map Some objs"
  shows "Decode env ds = (objs, None)"
  using Decode_loop_prefix [OF assms, of "[]" "[]" 1] by (simp add: Decode_def)

theorem Decode_well_formed_witness:
  "Decode (cluster_env accessor_of_value) [Inr (render configMap), Inr (render namespaceProd)]
     = ([configMap, namespaceProd], None)
   \<and> Decode (cluster_env accessor_of_value) [] = ([], None)"
  using Decode_well_formed [of "cluster_env accessor_of_value"
      "[Inr (render configMap), Inr (render namespaceProd)]" "[configMap, namespaceProd]"]
    Decode_well_formed [of "cluster_env accessor_of_value" "[]" "[]"]
  by (simp add: fixture_defs)


text \<open>
  Claim C7.  When the first \<open>k - 1\<close> documents of the stream decode to \<open>objs\<close> and the
  \<open>k\<close>-th does not (the decoder, the serializer or the conversion fails on it), \<open>Decode\<close>
  returns exactly \<open>objs\<close> together with an error that carries the ordinal \<open>k\<close>, counted
  from one, whatever follows in the stream.  The cause printed after the ordinal is the
  decoder's error, and nil for a failure of the serializer or of the conversion.
\<close>

theorem Decode_malformed:
  assumes "map (decoded env) pre = map Some objs"
    and "decoded env bad = None" and "bad \<noteq> Inl EOF"
  shows "Decode env (pre @ bad # post) =
           (objs, Some (ParsingSection (length pre + 1)
                          (case bad of Inl err \<Rightarrow> Some err | Inr raw \<Rightarrow> None)))"
proof -
  have "Decode_loop env (pre @ bad # post) [] 1 =
          (objs, 1 + length pre, case bad of Inl err \<Rightarrow> Some err | Inr raw \<Rightarrow> None)"
    using Decode_loop_prefix [OF assms(1), of "bad # post" "[]" 1]
      Decode_loop_malformed [OF assms(2,3), of post objs "1 + length pre"]
    by simp
  moreover have "(case bad of Inl err \<Rightarrow> Some err | Inr raw \<Rightarrow> None) \<noteq> Some EOF"
    using assms(3) by (cases bad) auto
  ultimately show ?thesis by (simp add: Decode_def)
qed

theorem Decode_malformed_witness:
  "Decode (cluster_env accessor_of_value)
     [Inr (render configMap), Inr ''junk'', Inr (render namespaceProd)] =
   ([configMap], Some (ParsingSection 2 None))"
  using Decode_malformed [of "cluster_env accessor_of_value" "[Inr (render configMap)]" "[configMap]"
      "Inr ''junk''" "[Inr (render namespaceProd)]"]
  by (simp add: fixture_defs)


section \<open>The two apply paths\<close>

text \<open>
  Server-side apply sends exactly one request, the apply patch with the bytes it was
  given, and leaves the object stripped.
\<close>

lemma serverSideApply_world:
  "snd (serverSideApply dc dri u b w) =
     w\<lparr>heap := (heap w)(u := stripped (heap w u)),
        calls := calls w @ [PatchCall dri (GetName (heap w u)) ApplyPatchType b
                              \<lparr>FieldManager = ''k8sutil'', Force = Some True\<rparr>]\<rparr>"
  by (auto simp: serverSideApply_def invoke_def Let_def SetAnnotations_def SetManagedFields_def
      stripped_def fun_upd_idem split: prod.splits option.splits)

lemma serverSideApply_result:
  "fst (serverSideApply dc dri u b w) =
     Returns (None,
       (case snd (dc (calls w) (PatchCall dri (GetName (heap w u)) ApplyPatchType b
                              \<lparr>FieldManager = ''k8sutil'', Force = Some True\<rparr>)) of
          None \<Rightarrow> None
        | Some err \<Rightarrow> Some (if isIncompatibleServerError err then ServerSideApplyNotAvailable err else err)))"
  by (auto simp: serverSideApply_def invoke_def Let_def SetAnnotations_def SetManagedFields_def
      split: prod.splits option.splits)

text \<open>
  The classic path sends every request through the handle it was given and writes only to
  the annotations of the object.
\<close>

lemma classicApply_calls:
  assumes "classicApply env dc dri u obj gvk w = (res, w')"
  shows "\<exists>cs. calls w' = calls w @ cs \<and> (\<forall>c\<in>set cs. call_dri c = dri)"
  using assms
  by (auto simp: classicApply_def invoke_def CreateApplyAnnotation_def SetAnnotations_def
      split: sum.splits prod.splits option.splits if_splits)

lemma classicApply_frame:
  assumes "classicApply env dc dri u obj gvk w = (res, w')"
  shows "(\<forall>r. r \<noteq> u \<longrightarrow> heap w' r = heap w r) \<and> GetNamespace (heap w' u) = GetNamespace (heap w u)
     \<and> GetName (heap w' u) = GetName (heap w u)"
  using assms
  by (auto simp: classicApply_def invoke_def CreateApplyAnnotation_def SetAnnotations_def
      split: sum.splits prod.splits option.splits if_splits)

lemma classicApply_nonempty:
  assumes "classicApply env dc dri u obj gvk w = (res, w')"
    and "GetModifiedConfiguration env obj True = Inr modified"
  shows "calls w' \<noteq> calls w"
  using assms
  by (auto simp: classicApply_def invoke_def CreateApplyAnnotation_def SetAnnotations_def
      split: sum.splits prod.splits option.splits if_splits)

lemma classicApply_created:
  assumes "classicApply env dc dri u obj gvk w = (res, w')"
  shows "\<forall>d x. CreateCall d x \<in> set (calls w') \<longrightarrow> CreateCall d x \<in> set (calls w) \<or> x = heap w' u"
  using assms
  by (auto simp: classicApply_def invoke_def CreateApplyAnnotation_def SetAnnotations_def
      split: sum.splits prod.splits option.splits if_splits)

text \<open>Lines 136 to 160 when each step succeeds, and what they leave alone.\<close>

lemma resolve_Inr:
  assumes "MarshalJSON env (heap w u) = Inr b"
    and "Serializer_Decode env b = Inr (obj, gvk)"
    and "restMapper (GroupKind gvk) (gvk_Version gvk) = Inr mapping"
  shows "resolve env restMapper u w =
     Inr (b, obj, gvk,
          (if mapping_Scope mapping = RESTScopeNameNamespace
           then Namespace (Resource (mapping_Resource mapping))
                  (if GetNamespace (heap w u) = [] then ''default'' else GetNamespace (heap w u))
           else Resource (mapping_Resource mapping)),
          (if mapping_Scope mapping = RESTScopeNameNamespace \<and> GetNamespace (heap w u) = []
           then SetNamespace w u ''default'' else w))"
  using assms by (simp add: resolve_def Let_def SetNamespace_def)

lemma resolve_facts:
  assumes "resolve env restMapper u w = Inr (b, obj, gvk, dri, w1)"
  shows "calls w1 = calls w" and "GetName (heap w1 u) = GetName (heap w u)"
    and "\<forall>r. r \<noteq> u \<longrightarrow> heap w1 r = heap w r"
    and "MarshalJSON env (heap w u) = Inr b"
  using assms
  by (auto simp: resolve_def Let_def SetNamespace_def split: sum.splits prod.splits if_splits)

lemma ApplyUnstructured_resolved:
  assumes "validate env (heap w u) = Returns None"
    and "resolve env restMapper u w = Inr (b, obj, gvk, dri, w1)"
  shows "ApplyUnstructured env dc restMapper u ss w =
           (if ss then serverSideApply dc dri u b w1 else classicApply env dc dri u obj gvk w1)"
  using assms by (simp add: ApplyUnstructured_def)

lemma apply_paths:
  assumes "(if ss then serverSideApply dc dri u b w1 else classicApply env dc dri u obj gvk w1) = (res, w')"
  shows "\<exists>cs. calls w' = calls w1 @ cs \<and> (\<forall>c\<in>set cs. call_dri c = dri)
            \<and> (ss \<or> (\<exists>m. GetModifiedConfiguration env obj True = Inr m) \<longrightarrow> cs \<noteq> [])"
    and "GetNamespace (heap w' u) = GetNamespace (heap w1 u)"
    and "\<forall>r. r \<noteq> u \<longrightarrow> heap w' r = heap w1 r"
proof -
  show "\<exists>cs. calls w' = calls w1 @ cs \<and> (\<forall>c\<in>set cs. call_dri c = dri)
            \<and> (ss \<or> (\<exists>m. GetModifiedConfiguration env obj True = Inr m) \<longrightarrow> cs \<noteq> [])"
  proof (cases ss)
    case True
    with assms have "w' = snd (serverSideApply dc dri u b w1)" by simp
    then show ?thesis by (simp add: serverSideApply_world)
  next
    case False
    with assms have c: "classicApply env dc dri u obj gvk w1 = (res, w')" by simp
    from classicApply_calls [OF c] obtain cs where
      cs: "calls w' = calls w1 @ cs" "\<forall>c\<in>set cs. call_dri c = dri" by blast
    have "(\<exists>m. GetModifiedConfiguration env obj True = Inr m) \<longrightarrow> cs \<noteq> []"
      using classicApply_nonempty [OF c] cs by auto
    with cs False show ?thesis by blast
  qed
  show "GetNamespace (heap w' u) = GetNamespace (heap w1 u)"
  proof (cases ss)
    case True
    with assms have "w' = snd (serverSideApply dc dri u b w1)" by simp
    then show ?thesis by (simp add: serverSideApply_world stripped_def)
  next
    case False
    with assms classicApply_frame show ?thesis by auto
  qed
  show "\<forall>r. r \<noteq> u \<longrightarrow> heap w' r = heap w1 r"
  proof (cases ss)
    case True
    with assms have "w' = snd (serverSideApply dc dri u b w1)" by simp
    then show ?thesis by (simp add: serverSideApply_world stripped_def)
  next
    case False
    with assms classicApply_frame show ?thesis by auto
  qed
qed

text \<open>A call writes to no object but its own.\<close>

lemma ApplyUnstructured_frame:
  assumes "ApplyUnstructured env dc restMapper u ss w = (res, w')" and "r \<noteq> u"
  shows "heap w' r = heap w r"
proof (cases "validate env (heap w u)")
  case Panic
  with assms show ?thesis by (simp add: ApplyUnstructured_def)
next
  case (Returns e)
  show ?thesis
  proof (cases e)
    case (Some err)
    with Returns assms show ?thesis by (simp add: ApplyUnstructured_def)
  next
    case None
    show ?thesis
    proof (cases "resolve env restMapper u w")
      case (Inl err)
      with None Returns assms show ?thesis by (simp add: ApplyUnstructured_def)
    next
      case (Inr t)
      then obtain b obj gvk dri w1 where t: "resolve env restMapper u w = Inr (b, obj, gvk, dri, w1)"
        by (cases t) auto
      from None Returns have v: "validate env (heap w u) = Returns None" by simp
      have run: "(if ss then serverSideApply dc dri u b w1 else classicApply env dc dri u obj gvk w1) = (res, w')"
        using ApplyUnstructured_resolved [OF v t, of dc ss] assms(1) by simp
      from apply_paths(3) [OF run] resolve_facts(3) [OF t] assms(2) show ?thesis by simp
    qed
  qed
qed

section \<open>Namespace defaulting\<close>

text \<open>
  Claim C9.  Take an object that passes the check of its name and whose mapping resolves.
  The requests the call sends extend the history, and there is at least one in server-side
  mode or when the modified configuration can be computed.  When the mapping is namespaced
  and the object has no namespace, the object's namespace becomes \<^verbatim>\<open>default\<close> and every
  request goes through the handle of the resource in the namespace \<^verbatim>\<open>default\<close>.  When the
  mapping is namespaced and the object names a namespace, the namespace is kept and is the
  one every request targets.  When the mapping is not namespaced, the namespace of the
  object is kept and every request goes through the unscoped handle.
\<close>

theorem ApplyUnstructured_namespace:
  assumes "validate env (heap w u) = Returns None"
    and "MarshalJSON env (heap w u) = Inr b"
    and "Serializer_Decode env b = Inr (obj, gvk)"
    and "restMapper (GroupKind gvk) (gvk_Version gvk) = Inr mapping"
    and "ApplyUnstructured env dc restMapper u ss w = (res, w')"
  shows "\<exists>cs. calls w' = calls w @ cs
     \<and> (ss \<or> (\<exists>m. GetModifiedConfiguration env obj True = Inr m) \<longrightarrow> cs \<noteq> [])
     \<and> (if mapping_Scope mapping = RESTScopeNameNamespace then
           if GetNamespace (heap w u) = [] then
             GetNamespace (heap w' u) = ''default''
             \<and> (\<forall>c\<in>set cs. call_dri c = Namespace (Resource (mapping_Resource mapping)) ''default'')
           else
             GetNamespace (heap w' u) = GetNamespace (heap w u)
             \<and> (\<forall>c\<in>set cs. call_dri c =
                    Namespace (Resource (mapping_Resource mapping)) (GetNamespace (heap w u)))
         else
           GetNamespace (heap w' u) = GetNamespace (heap w u)
           \<and> (\<forall>c\<in>set cs. call_dri c = Resource (mapping_Resource mapping)))"
proof -
  let ?dri = "if mapping_Scope mapping = RESTScopeNameNamespace
           then Namespace (Resource (mapping_Resource mapping))
                  (if GetNamespace (heap w u) = [] then ''default'' else GetNamespace (heap w u))
           else Resource (mapping_Resource mapping)"
  let ?w1 = "if mapping_Scope mapping = RESTScopeNameNamespace \<and> GetNamespace (heap w u) = []
           then SetNamespace w u ''default'' else w"
  have run: "(if ss then serverSideApply dc ?dri u b ?w1 else classicApply env dc ?dri u obj gvk ?w1) = (res, w')"
    using ApplyUnstructured_resolved [OF assms(1) resolve_Inr [where restMapper = restMapper, OF assms(2,3,4)], of dc ss] assms(5)
    by simp
  from apply_paths(1) [OF run] obtain cs where
    cs: "calls w' = calls ?w1 @ cs" "\<forall>c\<in>set cs. call_dri c = ?dri"
      "ss \<or> (\<exists>m. GetModifiedConfiguration env obj True = Inr m) \<longrightarrow> cs \<noteq> []" by blast
  have c1: "calls ?w1 = calls w" by (simp add: SetNamespace_def)
  have ns: "GetNamespace (heap w' u) = GetNamespace (heap ?w1 u)" by (rule apply_paths(2) [OF run])
  show ?thesis
    apply (rule exI [of _ cs])
    using cs c1 ns by (auto simp: SetNamespace_def)
qed

theorem ApplyUnstructured_namespace_witness:
  "validate (cluster_env accessor_of_value) (heap (start configMap) 0) = Returns None
   \<and> MarshalJSON (cluster_env accessor_of_value) (heap (start configMap) 0) = Inr ''ConfigMap/settings''
   \<and> Serializer_Decode (cluster_env accessor_of_value) ''ConfigMap/settings''
        = Inr (configMap, GroupVersionKind [] ''v1'' ''ConfigMap'')
   \<and> mapper (GroupKind (GroupVersionKind [] ''v1'' ''ConfigMap'')) ''v1''
        = Inr \<lparr>mapping_Resource = ''configmaps'', mapping_Scope = RESTScopeNameNamespace\<rparr>
   \<and> GetNamespace (heap (start configMap) 0) = []
   \<and> GetNamespace (heap (snd (ApplyUnstructured (cluster_env accessor_of_value) cluster mapper 0 False
          (start configMap))) 0) = ''default''
   \<and> map call_dri (calls (snd (ApplyUnstructured (cluster_env accessor_of_value) cluster mapper 0 False
          (start configMap))))
        = [Namespace (Resource ''configmaps'') ''default'', Namespace (Resource ''configmaps'') ''default'']
   \<and> GetNamespace (heap (snd (ApplyUnstructured (cluster_env accessor_of_value) cluster mapper 0 False
          (start namespaceProd))) 0) = []
   \<and> map call_dri (calls (snd (ApplyUnstructured (cluster_env accessor_of_value) cluster mapper 0 False
          (start namespaceProd))))
        = [Resource ''namespaces'', Resource ''namespaces'']"
  using ApplyUnstructured_namespace [where env = "cluster_env accessor_of_value"
      and w = "start configMap" and u = 0 and b = "''ConfigMap/settings''" and obj = configMap
      and gvk = "GroupVersionKind [] ''v1'' ''ConfigMap''" and restMapper = mapper
      and mapping = "\<lparr>mapping_Resource = ''configmaps'', mapping_Scope = RESTScopeNameNamespace\<rparr>"
      and dc = cluster and ss = False
      and res = "fst (ApplyUnstructured (cluster_env accessor_of_value) cluster mapper 0 False (start configMap))"
      and w' = "snd (ApplyUnstructured (cluster_env accessor_of_value) cluster mapper 0 False (start configMap))"]
    ApplyUnstructured_namespace [where env = "cluster_env accessor_of_value"
      and w = "start namespaceProd" and u = 0 and b = "''Namespace/prod''" and obj = namespaceProd
      and gvk = "GroupVersionKind [] ''v1'' ''Namespace''" and restMapper = mapper
      and mapping = "\<lparr>mapping_Resource = ''namespaces'', mapping_Scope = RESTScopeNameRoot\<rparr>"
      and dc = cluster and ss = False
      and res = "fst (ApplyUnstructured (cluster_env accessor_of_value) cluster mapper 0 False (start namespaceProd))"
      and w' = "snd (ApplyUnstructured (cluster_env accessor_of_value) cluster mapper 0 False (start namespaceProd))"]
  by (simp add: run_defs fixture_defs)

section \<open>What a call leaves in the caller's object\<close>

text \<open>The loop of \<open>Apply\<close> writes to no object outside the list it runs over.\<close>

lemma Apply_loop_frame:
  "Apply_loop env dc restMapper ss rs fs w = (res, w') \<Longrightarrow> r \<notin> set rs \<Longrightarrow> heap w' r = heap w r"
proof (induction rs arbitrary: fs w)
  case Nil
  then show ?case by simp
next
  case (Cons x rs)
  obtain res1 w1 where a: "ApplyUnstructured env dc restMapper x ss w = (res1, w1)"
    by (cases "ApplyUnstructured env dc restMapper x ss w") auto
  from Cons.prems(2) have rx: "r \<noteq> x" and rr: "r \<notin> set rs" by auto
  have h1: "heap w1 r = heap w r" by (rule ApplyUnstructured_frame [OF a rx])
  show ?case
  proof (cases res1)
    case Panic
    with Cons.prems(1) a h1 show ?thesis by simp
  next
    case (Returns p)
    obtain ob er where p: "p = (ob, er)" by (cases p) auto
    show ?thesis
    proof (cases er)
      case None
      with Cons.prems(1) a Returns p
      have "Apply_loop env dc restMapper ss rs fs w1 = (res, w')" by (simp split: option.splits)
      from Cons.IH [OF this rr] h1 show ?thesis by simp
    next
      case (Some err)
      show ?thesis
      proof (cases ob)
        case None
        with Cons.prems(1) a Returns p Some h1 show ?thesis by simp
      next
        case (Some o1)
        with Cons.prems(1) a Returns p \<open>er = Some err\<close>
        have "Apply_loop env dc restMapper ss rs
                (fs @ [\<lparr>Name = GetName o1, Kind = GetKind o1, ErrMessage = err\<rparr>]) w1 = (res, w')"
          by simp
        from Cons.IH [OF this rr] h1 show ?thesis by simp
      qed
    qed
  qed
qed

lemma Apply_loop_step:
  assumes "Apply_loop env dc restMapper ss (x # rs) fs w = (Returns fs', w')"
  obtains p w1 fs1 where "ApplyUnstructured env dc restMapper x ss w = (Returns p, w1)"
    and "Apply_loop env dc restMapper ss rs fs1 w1 = (Returns fs', w')"
proof -
  obtain res1 w1 where a: "ApplyUnstructured env dc restMapper x ss w = (res1, w1)"
    by (cases "ApplyUnstructured env dc restMapper x ss w") auto
  with assms obtain p where r: "res1 = Returns p" by (cases res1) auto
  obtain ob er where p: "p = (ob, er)" by (cases p) auto
  show ?thesis
  proof (cases er)
    case None
    with assms a r p have "Apply_loop env dc restMapper ss rs fs w1 = (Returns fs', w')"
      by (simp split: option.splits)
    with a r that show ?thesis by blast
  next
    case (Some err)
    with assms a r p obtain o1 where "ob = Some o1" by (cases ob) auto
    with assms a r p Some
    have "Apply_loop env dc restMapper ss rs
                (fs @ [\<lparr>Name = GetName o1, Kind = GetKind o1, ErrMessage = err\<rparr>]) w1 = (Returns fs', w')"
      by simp
    with a r that show ?thesis by blast
  qed
qed

text \<open>The state of the object after a call that got as far as the mapping.\<close>

lemma ApplyUnstructured_mutation:
  assumes "validate env (heap w u) = Returns None"
    and "MarshalJSON env (heap w u) = Inr b"
    and "Serializer_Decode env b = Inr (obj, gvk)"
    and "restMapper (GroupKind gvk) (gvk_Version gvk) = Inr mapping"
    and "ApplyUnstructured env dc restMapper u ss w = (res, w')"
  shows "(mapping_Scope mapping = RESTScopeNameNamespace \<and> GetNamespace (heap w u) = [] \<longrightarrow>
            GetNamespace (heap w' u) = ''default'')
       \<and> (ss \<longrightarrow> GetAnnotations (heap w' u) LastAppliedConfigAnnotation = None
                 \<and> GetManagedFields (heap w' u) = [])"
proof -
  let ?dri = "if mapping_Scope mapping = RESTScopeNameNamespace
           then Namespace (Resource (mapping_Resource mapping))
                  (if GetNamespace (heap w u) = [] then ''default'' else GetNamespace (heap w u))
           else Resource (mapping_Resource mapping)"
  let ?w1 = "if mapping_Scope mapping = RESTScopeNameNamespace \<and> GetNamespace (heap w u) = []
           then SetNamespace w u ''default'' else w"
  have run: "(if ss then serverSideApply dc ?dri u b ?w1 else classicApply env dc ?dri u obj gvk ?w1) = (res, w')"
    using ApplyUnstructured_resolved [OF assms(1) resolve_Inr [where restMapper = restMapper, OF assms(2,3,4)], of dc ss] assms(5)
    by simp
  have ns: "GetNamespace (heap w' u) = GetNamespace (heap ?w1 u)" by (rule apply_paths(2) [OF run])
  have "ss \<longrightarrow> w' = snd (serverSideApply dc ?dri u b ?w1)" using run by auto
  then have "ss \<longrightarrow> GetAnnotations (heap w' u) LastAppliedConfigAnnotation = None
                 \<and> GetManagedFields (heap w' u) = []"
    by (simp add: serverSideApply_world stripped_def)
  with ns show ?thesis by (auto simp: SetNamespace_def)
qed

lemma Apply_loop_mutation:
  assumes "Apply_loop env dc restMapper ss rs fs w = (Returns fs', w')"
    and "distinct rs" and "k \<in> set rs"
    and "validate env (heap w k) = Returns None"
    and "MarshalJSON env (heap w k) = Inr b"
    and "Serializer_Decode env b = Inr (obj, gvk)"
    and "restMapper (GroupKind gvk) (gvk_Version gvk) = Inr mapping"
  shows "(mapping_Scope mapping = RESTScopeNameNamespace \<and> GetNamespace (heap w k) = [] \<longrightarrow>
            GetNamespace (heap w' k) = ''default'')
       \<and> (ss \<longrightarrow> GetAnnotations (heap w' k) LastAppliedConfigAnnotation = None
                 \<and> GetManagedFields (heap w' k) = [])"
  using assms
proof (induction rs arbitrary: fs w)
  case Nil
  then show ?case by simp
next
  case (Cons x rs)
  from Cons.prems(1) obtain p w1 fs1 where
    a: "ApplyUnstructured env dc restMapper x ss w = (Returns p, w1)"
    and l: "Apply_loop env dc restMapper ss rs fs1 w1 = (Returns fs', w')"
    by (rule Apply_loop_step)
  show ?case
  proof (cases "x = k")
    case True
    with Cons.prems(2) have "k \<notin> set rs" by simp
    from Apply_loop_frame [OF l this] have "heap w' k = heap w1 k" .
    with ApplyUnstructured_mutation [where restMapper = restMapper, OF Cons.prems(4,5,6,7), of dc ss "Returns p" w1] a True
    show ?thesis by simp
  next
    case False
    then have h: "heap w1 k = heap w k" using ApplyUnstructured_frame [OF a] by simp
    from False Cons.prems(2,3) have d: "distinct rs" and kin: "k \<in> set rs" by auto
    from Cons.IH [OF l d kin] Cons.prems(4,5,6,7) h show ?thesis by simp
  qed
qed

text \<open>
  Claim C10.  The struct is passed by value but its map is shared, so the writes of
  \<open>ApplyUnstructured\<close> are writes to the caller's object, the one behind the reference \<open>u\<close>.
  For an object that passes the check of its name and whose mapping resolves: a namespaced
  mapping and an empty namespace leave the namespace \<^verbatim>\<open>default\<close> in the caller's object; in
  server-side mode the caller's object ends without the last-applied annotation and without
  managed fields; no other object is written.  The same holds for the list \<open>Apply\<close> decoded:
  when \<open>Apply\<close> returns, the \<open>k\<close>-th decoded object has the namespace \<^verbatim>\<open>default\<close>, and so is
  no longer the object that was decoded, if its mapping is namespaced and it had no
  namespace, and in server-side mode it has lost the annotation and the managed fields.
\<close>

theorem ApplyUnstructured_mutates_caller:
  "(validate env (heap w u) = Returns None
      \<and> MarshalJSON env (heap w u) = Inr b
      \<and> Serializer_Decode env b = Inr (obj, gvk)
      \<and> restMapper (GroupKind gvk) (gvk_Version gvk) = Inr mapping
      \<and> ApplyUnstructured env dc restMapper u ss w = (res, w')
    \<longrightarrow> (mapping_Scope mapping = RESTScopeNameNamespace \<and> GetNamespace (heap w u) = [] \<longrightarrow>
            GetNamespace (heap w' u) = ''default'')
       \<and> (ss \<longrightarrow> GetAnnotations (heap w' u) LastAppliedConfigAnnotation = None
                 \<and> GetManagedFields (heap w' u) = [])
       \<and> (\<forall>r. r \<noteq> u \<longrightarrow> heap w' r = heap w r))
 \<and> (ToRESTMapper env opts = Inr restMapper
      \<and> Decode env data = (unstructList, None)
      \<and> Apply env opts data tr = (Returns result, tr', unstructList')
      \<and> k < length unstructList
      \<and> validate env (unstructList ! k) = Returns None
      \<and> MarshalJSON env (unstructList ! k) = Inr b
      \<and> Serializer_Decode env b = Inr (obj, gvk)
      \<and> restMapper (GroupKind gvk) (gvk_Version gvk) = Inr mapping
    \<longrightarrow> length unstructList' = length unstructList
       \<and> (mapping_Scope mapping = RESTScopeNameNamespace \<and> GetNamespace (unstructList ! k) = [] \<longrightarrow>
            GetNamespace (unstructList' ! k) = ''default'' \<and> unstructList' ! k \<noteq> unstructList ! k)
       \<and> (serverSide opts \<longrightarrow>
            GetAnnotations (unstructList' ! k) LastAppliedConfigAnnotation = None
            \<and> GetManagedFields (unstructList' ! k) = []))"
proof (intro conjI impI)
  assume h: "validate env (heap w u) = Returns None
      \<and> MarshalJSON env (heap w u) = Inr b
      \<and> Serializer_Decode env b = Inr (obj, gvk)
      \<and> restMapper (GroupKind gvk) (gvk_Version gvk) = Inr mapping
      \<and> ApplyUnstructured env dc restMapper u ss w = (res, w')"
  then have m: "(mapping_Scope mapping = RESTScopeNameNamespace \<and> GetNamespace (heap w u) = [] \<longrightarrow>
            GetNamespace (heap w' u) = ''default'')
       \<and> (ss \<longrightarrow> GetAnnotations (heap w' u) LastAppliedConfigAnnotation = None
                 \<and> GetManagedFields (heap w' u) = [])"
    using ApplyUnstructured_mutation [of env w u b obj gvk restMapper mapping dc ss res w'] by blast
  {
    assume "mapping_Scope mapping = RESTScopeNameNamespace \<and> GetNamespace (heap w u) = []"
    with m show "GetNamespace (heap w' u) = ''default''" by blast
  }
  {
    assume ss
    with m show "GetAnnotations (heap w' u) LastAppliedConfigAnnotation = None" by blast
    from \<open>ss\<close> m show "GetManagedFields (heap w' u) = []" by blast
  }
  from h show "\<forall>r. r \<noteq> u \<longrightarrow> heap w' r = heap w r"
    using ApplyUnstructured_frame [of env dc restMapper u ss w res w'] by blast
next
  assume h: "ToRESTMapper env opts = Inr restMapper
      \<and> Decode env data = (unstructList, None)
      \<and> Apply env opts data tr = (Returns result, tr', unstructList')
      \<and> k < length unstructList
      \<and> validate env (unstructList ! k) = Returns None
      \<and> MarshalJSON env (unstructList ! k) = Inr b
      \<and> Serializer_Decode env b = Inr (obj, gvk)
      \<and> restMapper (GroupKind gvk) (gvk_Version gvk) = Inr mapping"
  let ?w0 = "\<lparr>heap = nth unstructList, calls = tr\<rparr>"
  let ?n = "length unstructList"
  from h obtain fs w' where
    l: "Apply_loop env (dynamicClient opts) restMapper (serverSide opts) [0..<?n] [] ?w0 = (Returns fs, w')"
    and us': "unstructList' = map (heap w') [0..<?n]"
    by (auto simp: Apply_def split: prod.splits outcome.splits)
  from h have k: "k < ?n" by simp
  then have kin: "k \<in> set [0..<?n]" by simp
  have e: "unstructList' ! k = heap w' k" using us' k by simp
  have q: "(mapping_Scope mapping = RESTScopeNameNamespace \<and> GetNamespace (heap ?w0 k) = [] \<longrightarrow>
            GetNamespace (heap w' k) = ''default'')
       \<and> (serverSide opts \<longrightarrow> GetAnnotations (heap w' k) LastAppliedConfigAnnotation = None
                 \<and> GetManagedFields (heap w' k) = [])"
    using Apply_loop_mutation [where restMapper = restMapper and mapping = mapping and b = b
        and obj = obj and gvk = gvk, OF l _ kin] h by simp
  show "length unstructList' = length unstructList" using us' by simp
  {
    assume a: "mapping_Scope mapping = RESTScopeNameNamespace \<and> GetNamespace (unstructList ! k) = []"
    with q e show "GetNamespace (unstructList' ! k) = ''default''" by simp
    with a show "unstructList' ! k \<noteq> unstructList ! k" by auto
  }
  {
    assume "serverSide opts"
    with q e show "GetAnnotations (unstructList' ! k) LastAppliedConfigAnnotation = None" by simp
    from \<open>serverSide opts\<close> q e show "GetManagedFields (unstructList' ! k) = []" by simp
  }
qed

theorem ApplyUnstructured_mutates_caller_witness:
  "Decode (cluster_env accessor_of_value) [Inr (render configMap), Inr (render widget)]
     = ([configMap, widget], None)
   \<and> Apply (cluster_env accessor_of_value) (options True)
        [Inr (render configMap), Inr (render widget)] []
     = (Returns ([], None),
        [PatchCall (Namespace (Resource ''configmaps'') ''default'') ''settings'' ApplyPatchType
           ''ConfigMap/settings'' \<lparr>FieldManager = ''k8sutil'', Force = Some True\<rparr>,
         PatchCall (Namespace (Resource ''widgets'') ''prod'') ''w1'' ApplyPatchType
           ''Widget/w1+annotation+managedFields'' \<lparr>FieldManager = ''k8sutil'', Force = Some True\<rparr>],
        [configMap\<lparr>GetNamespace := ''default''\<rparr>, stripped widget])
   \<and> GetNamespace configMap = []
   \<and> GetAnnotations widget LastAppliedConfigAnnotation = Some ''old''
   \<and> GetManagedFields widget = [''kubectl'']
   \<and> GetNamespace ([configMap\<lparr>GetNamespace := ''default''\<rparr>, stripped widget] ! 0) = ''default''
   \<and> GetAnnotations ([configMap\<lparr>GetNamespace := ''default''\<rparr>, stripped widget] ! 1)
         LastAppliedConfigAnnotation = None
   \<and> GetManagedFields ([configMap\<lparr>GetNamespace := ''default''\<rparr>, stripped widget] ! 1) = []"
proof -
  let ?E = "cluster_env accessor_of_value"
  let ?data = "[Inr (render configMap), Inr (render widget)]"
  let ?tr = "[PatchCall (Namespace (Resource ''configmaps'') ''default'') ''settings'' ApplyPatchType
           ''ConfigMap/settings'' \<lparr>FieldManager = ''k8sutil'', Force = Some True\<rparr>,
         PatchCall (Namespace (Resource ''widgets'') ''prod'') ''w1'' ApplyPatchType
           ''Widget/w1+annotation+managedFields'' \<lparr>FieldManager = ''k8sutil'', Force = Some True\<rparr>]"
  let ?us = "[configMap\<lparr>GetNamespace := ''default''\<rparr>, stripped widget]"
  let ?cm = "\<lparr>mapping_Resource = ''configmaps'', mapping_Scope = RESTScopeNameNamespace\<rparr>"
  let ?gvk = "GroupVersionKind [] ''v1'' ''ConfigMap''"
  have t: "ToRESTMapper ?E (options True) = Inr mapper"
    by (simp add: batch_defs cluster_env_def)
  have ss: "serverSide (options True)" by (simp add: batch_defs)
  have d: "Decode ?E ?data = ([configMap, widget], None)"
    by (simp add: batch_defs fixture_defs)
  have a: "Apply ?E (options True) ?data [] = (Returns ([], None), ?tr, ?us)"
    by (simp add: run_defs fixture_defs batch_defs)
  have v: "validate ?E configMap = Returns None" "validate ?E widget = Returns None"
    by (simp_all add: validate_def configMap_def widget_def)
  have m: "MarshalJSON ?E configMap = Inr ''ConfigMap/settings''"
    "MarshalJSON ?E widget = Inr ''Widget/w1+annotation+managedFields''"
    by (simp_all add: fixture_defs)
  have s: "Serializer_Decode ?E ''ConfigMap/settings'' = Inr (configMap, ?gvk)"
    "Serializer_Decode ?E ''Widget/w1+annotation+managedFields''
       = Inr (widget, GroupVersionKind [] ''example.com/v1'' ''Widget'')"
    by (simp_all add: fixture_defs)
  have r: "mapper (GroupKind ?gvk) (gvk_Version ?gvk) = Inr ?cm"
    "mapper (GroupKind (GroupVersionKind [] ''example.com/v1'' ''Widget''))
        (gvk_Version (GroupVersionKind [] ''example.com/v1'' ''Widget''))
      = Inr \<lparr>mapping_Resource = ''widgets'', mapping_Scope = RESTScopeNameNamespace\<rparr>"
    by (simp_all add: mapper_def GroupKind_def)
  have e: "GetNamespace configMap = []" by (simp add: configMap_def)
  from ApplyUnstructured_mutates_caller [where env = ?E and opts = "options True" and data = ?data
      and unstructList = "[configMap, widget]" and tr = "[]" and result = "([], None)" and tr' = ?tr
      and unstructList' = ?us and k = 0 and restMapper = mapper and b = "''ConfigMap/settings''"
      and obj = configMap and gvk = ?gvk and mapping = ?cm, THEN conjunct2]
    t d a v(1) m(1) s(1) r(1) e
  have n: "GetNamespace (?us ! 0) = ''default''" by simp
  from ApplyUnstructured_mutates_caller [where env = ?E and opts = "options True" and data = ?data
      and unstructList = "[configMap, widget]" and tr = "[]" and result = "([], None)" and tr' = ?tr
      and unstructList' = ?us and k = 1 and restMapper = mapper
      and b = "''Widget/w1+annotation+managedFields''" and obj = widget
      and gvk = "GroupVersionKind [] ''example.com/v1'' ''Widget''"
      and mapping = "\<lparr>mapping_Resource = ''widgets'', mapping_Scope = RESTScopeNameNamespace\<rparr>",
      THEN conjunct2]
    t d a v(2) m(2) s(2) r(2) ss
  have x: "GetAnnotations (?us ! 1) LastAppliedConfigAnnotation = None
           \<and> GetManagedFields (?us ! 1) = []" by simp
  have w: "GetAnnotations widget LastAppliedConfigAnnotation = Some ''old''"
    "GetManagedFields widget = [''kubectl'']"
    by (simp_all add: widget_def)
  from d a e w n x show ?thesis by blast
qed

section \<open>The create path\<close>

text \<open>
  Claim C8.  In classic mode, for an object that passes the check of its name, whose
  mapping resolves and whose modified configuration can be computed, let the get request
  fail with \<open>err\<close>.  If \<open>err\<close> is a not-found error and the annotation can be stamped, the call
  writes the last-applied annotation into the object, then sends one create request that
  carries the stamped object, and returns the answer of that request.  If \<open>err\<close> is any other
  error, the call returns it wrapped as the failure to retrieve the current configuration
  and the get request stays the only request sent: nothing is created.
\<close>

theorem ApplyUnstructured_create:
  assumes "validate env (heap w u) = Returns None"
    and "resolve env restMapper u w = Inr (b, obj, gvk, dri, w1)"
    and "GetModifiedConfiguration env obj True = Inr modified"
    and "dc (calls w) (GetCall dri (GetName (heap w u))) = (currentUnstr, Some err)"
  shows "(IsNotFound env err \<and> EncodeCanonical env (heap w1 u) = Inr stamp \<longrightarrow>
            ApplyUnstructured env dc restMapper u False w =
              (Returns (dc (calls w @ [GetCall dri (GetName (heap w u))])
                          (CreateCall dri ((heap w1 u)\<lparr>GetAnnotations :=
                              (GetAnnotations (heap w1 u))(LastAppliedConfigAnnotation \<mapsto> stamp)\<rparr>))),
               w1\<lparr>heap := (heap w1)(u := (heap w1 u)\<lparr>GetAnnotations :=
                              (GetAnnotations (heap w1 u))(LastAppliedConfigAnnotation \<mapsto> stamp)\<rparr>),
                  calls := calls w @ [GetCall dri (GetName (heap w u)),
                     CreateCall dri ((heap w1 u)\<lparr>GetAnnotations :=
                              (GetAnnotations (heap w1 u))(LastAppliedConfigAnnotation \<mapsto> stamp)\<rparr>)]\<rparr>))
       \<and> (\<not> IsNotFound env err \<longrightarrow>
            ApplyUnstructured env dc restMapper u False w =
              (Returns (None, Some (RetrievingCurrent (GetName (heap w u)) err)),
               w1\<lparr>calls := calls w @ [GetCall dri (GetName (heap w u))]\<rparr>))"
  using assms resolve_facts(1,2) [OF assms(2)]
  by (auto simp: ApplyUnstructured_def classicApply_def invoke_def CreateApplyAnnotation_def
      SetAnnotations_def split: option.splits)

theorem ApplyUnstructured_create_witness:
  "IsNotFound (cluster_env accessor_of_value) (StatusError 404 ''not found'')
   \<and> ApplyUnstructured (cluster_env accessor_of_value) cluster mapper 0 False (start configMap)
     = (Returns (Some (configMap\<lparr>GetNamespace := ''default'',
                        GetAnnotations := [LastAppliedConfigAnnotation \<mapsto> ''ConfigMap/settings'']\<rparr>), None),
        \<lparr>heap = (\<lambda>r. configMap)(0 := configMap\<lparr>GetNamespace := ''default'',
                        GetAnnotations := [LastAppliedConfigAnnotation \<mapsto> ''ConfigMap/settings'']\<rparr>),
         calls = [GetCall (Namespace (Resource ''configmaps'') ''default'') ''settings'',
                  CreateCall (Namespace (Resource ''configmaps'') ''default'')
                    (configMap\<lparr>GetNamespace := ''default'',
                        GetAnnotations := [LastAppliedConfigAnnotation \<mapsto> ''ConfigMap/settings'']\<rparr>)]\<rparr>)
   \<and> \<not> IsNotFound (cluster_env accessor_of_value) (StatusError 403 ''forbidden'')
   \<and> ApplyUnstructured (cluster_env accessor_of_value) cluster mapper 0 False (start secret)
     = (Returns (None, Some (RetrievingCurrent ''token'' (StatusError 403 ''forbidden''))),
        \<lparr>heap = (\<lambda>r. secret)(0 := secret\<lparr>GetNamespace := ''default''\<rparr>),
         calls = [GetCall (Namespace (Resource ''secrets'') ''default'') ''token'']\<rparr>)"
proof -
  let ?E = "cluster_env accessor_of_value"
  let ?cm = "Namespace (Resource ''configmaps'') ''default''"
  let ?sc = "Namespace (Resource ''secrets'') ''default''"
  have nf: "IsNotFound ?E (StatusError 404 ''not found'')"
    and fb: "\<not> IsNotFound ?E (StatusError 403 ''forbidden'')"
    by (simp_all add: cluster_env_def)
  have v: "validate ?E (heap (start configMap) 0) = Returns None"
    "validate ?E (heap (start secret) 0) = Returns None"
    by (simp_all add: validate_def start_def configMap_def secret_def)
  have r: "resolve ?E mapper 0 (start configMap)
             = Inr (''ConfigMap/settings'', configMap, GroupVersionKind [] ''v1'' ''ConfigMap'', ?cm,
                    SetNamespace (start configMap) 0 ''default'')"
    "resolve ?E mapper 0 (start secret)
             = Inr (''Secret/token'', secret, GroupVersionKind [] ''v1'' ''Secret'', ?sc,
                    SetNamespace (start secret) 0 ''default'')"
    by (simp_all add: run_defs fixture_defs)
  have g: "GetModifiedConfiguration ?E configMap True = Inr ''ConfigMap/settings''"
    "GetModifiedConfiguration ?E secret True = Inr ''Secret/token''"
    by (simp_all add: fixture_defs)
  have d: "cluster (calls (start configMap)) (GetCall ?cm (GetName (heap (start configMap) 0)))
             = (None, Some (StatusError 404 ''not found''))"
    "cluster (calls (start secret)) (GetCall ?sc (GetName (heap (start secret) 0)))
             = (None, Some (StatusError 403 ''forbidden''))"
    by (simp_all add: cluster_def start_def configMap_def secret_def)
  have c: "EncodeCanonical ?E (heap (SetNamespace (start configMap) 0 ''default'') 0)
             = Inr ''ConfigMap/settings''"
    by (simp add: fixture_defs SetNamespace_def start_def)
  from ApplyUnstructured_create [where dc = cluster and stamp = "''ConfigMap/settings''",
      OF v(1) r(1) g(1) d(1)] nf c
  have "ApplyUnstructured ?E cluster mapper 0 False (start configMap) =
          (Returns (cluster (calls (start configMap) @ [GetCall ?cm (GetName (heap (start configMap) 0))])
                      (CreateCall ?cm ((heap (SetNamespace (start configMap) 0 ''default'') 0)
                         \<lparr>GetAnnotations :=
                            (GetAnnotations (heap (SetNamespace (start configMap) 0 ''default'') 0))
                              (LastAppliedConfigAnnotation \<mapsto> ''ConfigMap/settings'')\<rparr>))),
           (SetNamespace (start configMap) 0 ''default'')
             \<lparr>heap := (heap (SetNamespace (start configMap) 0 ''default''))
                (0 := (heap (SetNamespace (start configMap) 0 ''default'') 0)
                         \<lparr>GetAnnotations :=
                            (GetAnnotations (heap (SetNamespace (start configMap) 0 ''default'') 0))
                              (LastAppliedConfigAnnotation \<mapsto> ''ConfigMap/settings'')\<rparr>),
              calls := calls (start configMap) @ [GetCall ?cm (GetName (heap (start configMap) 0)),
                 CreateCall ?cm ((heap (SetNamespace (start configMap) 0 ''default'') 0)
                         \<lparr>GetAnnotations :=
                            (GetAnnotations (heap (SetNamespace (start configMap) 0 ''default'') 0))
                              (LastAppliedConfigAnnotation \<mapsto> ''ConfigMap/settings'')\<rparr>)]\<rparr>)"
    by blast
  then have a1: "ApplyUnstructured ?E cluster mapper 0 False (start configMap)
     = (Returns (Some (configMap\<lparr>GetNamespace := ''default'',
                        GetAnnotations := [LastAppliedConfigAnnotation \<mapsto> ''ConfigMap/settings'']\<rparr>), None),
        \<lparr>heap = (\<lambda>r. configMap)(0 := configMap\<lparr>GetNamespace := ''default'',
                        GetAnnotations := [LastAppliedConfigAnnotation \<mapsto> ''ConfigMap/settings'']\<rparr>),
         calls = [GetCall ?cm ''settings'',
                  CreateCall ?cm
                    (configMap\<lparr>GetNamespace := ''default'',
                        GetAnnotations := [LastAppliedConfigAnnotation \<mapsto> ''ConfigMap/settings'']\<rparr>)]\<rparr>)"
    by (simp add: SetNamespace_def start_def cluster_def configMap_def)
  from ApplyUnstructured_create [where dc = cluster, OF v(2) r(2) g(2) d(2)] fb
  have "ApplyUnstructured ?E cluster mapper 0 False (start secret) =
          (Returns (None, Some (RetrievingCurrent (GetName (heap (start secret) 0))
                                  (StatusError 403 ''forbidden''))),
           (SetNamespace (start secret) 0 ''default'')
             \<lparr>calls := calls (start secret) @ [GetCall ?sc (GetName (heap (start secret) 0))]\<rparr>)"
    by blast
  then have a2: "ApplyUnstructured ?E cluster mapper 0 False (start secret)
     = (Returns (None, Some (RetrievingCurrent ''token'' (StatusError 403 ''forbidden''))),
        \<lparr>heap = (\<lambda>r. secret)(0 := secret\<lparr>GetNamespace := ''default''\<rparr>),
         calls = [GetCall ?sc ''token'']\<rparr>)"
    by (simp add: SetNamespace_def start_def secret_def configMap_def)
  from nf fb a1 a2 show ?thesis by blast
qed

section \<open>The patch of a kind the registry does not know\<close>

text \<open>
  For a kind that is not registered, \<open>Patch\<close> hands original, modified and current to the
  three-way JSON merge with the keys \<^verbatim>\<open>apiVersion\<close>, \<^verbatim>\<open>kind\<close> and \<^verbatim>\<open>name\<close>, and sorts the
  errors of the merge with \<^verbatim>\<open>IsPreconditionFailed\<close>.
\<close>

lemma Patch_unregistered:
  assumes "Scheme_New env gvk = Inl e" and "IsNotRegisteredError env e"
    and "MarshalJSON env currentUnstr = Inr current"
    and "GetOriginalConfiguration env currentUnstr = Inr original"
  shows "Patch env currentUnstr modified nm gvk =
           (case CreateThreeWayJSONMergePatch env original modified current
                   [''apiVersion'', ''kind'', ''name''] of
              Inr patch \<Rightarrow> Inr (patch, MergePatchType)
            | Inl err \<Rightarrow>
                if IsPreconditionFailed env err then Inl IdentityChanged
                else Inl (UnableToApplyPatch err))"
  using assms by (simp add: Patch_def split: sum.splits)

text \<open>
  Claim C5.  The kind \<^verbatim>\<open>Gadget\<close> is not registered, and the modified document has the kind
  \<^verbatim>\<open>Gadget\<close> where the current object has the kind \<^verbatim>\<open>Widget\<close>.  The merge is called with
  the three keys and fails its precondition on \<^verbatim>\<open>kind\<close>, but with a plain error, so the test
  of \<open>Patch\<close> for a failed precondition is false: \<open>Patch\<close> returns the wrapper of the other
  merge errors, not \<open>IdentityChanged\<close>.  \<open>ApplyUnstructured\<close> returns that error, and the get
  request is the only request sent.
\<close>

theorem Patch_precondition_not_distinct:
  "Scheme_New (cluster_env accessor_of_value) (GroupVersionKind [] ''example.com/v1'' ''Gadget'')
     = Inl (LibError ''not registered'')
   \<and> IsNotRegisteredError (cluster_env accessor_of_value) (LibError ''not registered'')
   \<and> CreateThreeWayJSONMergePatch (cluster_env accessor_of_value) ''old''
        ''Gadget/w1+annotation+managedFields'' ''Widget/w1+annotation+managedFields''
        [''apiVersion'', ''kind'', ''name''] = Inl (LibError ''precondition failed for: kind'')
   \<and> \<not> IsPreconditionFailed (cluster_env accessor_of_value) (LibError ''precondition failed for: kind'')
   \<and> Patch (cluster_env accessor_of_value) widget ''Gadget/w1+annotation+managedFields'' ''w1''
        (GroupVersionKind [] ''example.com/v1'' ''Gadget'')
     = Inl (UnableToApplyPatch (LibError ''precondition failed for: kind''))
   \<and> ApplyUnstructured (cluster_env accessor_of_value) cluster mapper 0 False (start gadget)
     = (Returns (None, Some (UnableToApplyPatch (LibError ''precondition failed for: kind''))),
        \<lparr>heap = (\<lambda>r. gadget),
         calls = [GetCall (Namespace (Resource ''widgets'') ''prod'') ''w1'']\<rparr>)"
  by (simp add: run_defs fixture_defs)

section \<open>What a call returns\<close>









section \<open>The check of the name\<close>

text \<open>With nil metadata the call panics on every object without a name.\<close>

lemma ApplyUnstructured_nil_metadata:
  "GetName (heap w u) = [] \<Longrightarrow> meta_Accessor env (heap w u) = None \<Longrightarrow>
   ApplyUnstructured env dc restMapper u ss w = (Panic, w)"
  by (simp add: ApplyUnstructured_def validate_def)

text \<open>
  Claim C4.  An object with a generate-name and no name, in either mode, and an object with
  neither.  \<^verbatim>\<open>meta.Accessor\<close> is given the struct by value and returns nil metadata, so the
  read of the generate-name at line 130 panics: the call returns no validation error, the
  object is not rejected.  No request is sent and the object is not written.
\<close>

theorem ApplyUnstructured_nameless_panics:
  "GetName generated = [] \<and> GetGenerateName generated = ''job-''
   \<and> ApplyUnstructured (cluster_env accessor_of_value) cluster mapper 0 False (start generated)
        = (Panic, start generated)
   \<and> ApplyUnstructured (cluster_env accessor_of_value) cluster mapper 0 True (start generated)
        = (Panic, start generated)
   \<and> GetName unnamed = [] \<and> GetGenerateName unnamed = []
   \<and> ApplyUnstructured (cluster_env accessor_of_value) cluster mapper 0 False (start unnamed)
        = (Panic, start unnamed)"
  by (simp add: run_defs fixture_defs)

section \<open>The error \<open>Apply\<close> returns\<close>

text \<open>
  Claim C6.  When the REST mapper cannot be set up or the manifest does not decode,
  \<open>Apply\<close> returns that error with no failure record and has sent no request.  Whenever
  \<open>Apply\<close> returns, its error is set exactly in those two cases: the failure of an object
  never sets it.
\<close>

theorem Apply_hard_error:
  "(isl (ToRESTMapper env opts) \<or> snd (Decode env data) \<noteq> None \<longrightarrow>
      (\<exists>e us. Apply env opts data tr = (Returns ([], Some e), tr, us)))
 \<and> (\<forall>fs err tr' us. Apply env opts data tr = (Returns (fs, err), tr', us) \<longrightarrow>
      (err \<noteq> None \<longleftrightarrow> isl (ToRESTMapper env opts) \<or> snd (Decode env data) \<noteq> None))"
  by (auto simp: Apply_def split: sum.splits prod.splits option.splits outcome.splits)

theorem Apply_hard_error_witness:
  "snd (Decode (cluster_env accessor_of_value) [Inr (render configMap), Inr ''junk'']) \<noteq> None
   \<and> Apply (cluster_env accessor_of_value) (options False) [Inr (render configMap), Inr ''junk''] []
       = (Returns ([], Some (ParsingSection 2 None)), [], [configMap])
   \<and> \<not> isl (ToRESTMapper (cluster_env accessor_of_value) (options False))
   \<and> snd (Decode (cluster_env accessor_of_value) [Inr (render namespaceProd)]) = None
   \<and> Apply (cluster_env accessor_of_value) (options False) [Inr (render namespaceProd)] []
       = (Returns ([\<lparr>Name = ''prod'', Kind = ''Namespace'', ErrMessage = StatusError 409 ''conflict''\<rparr>], None),
          [GetCall (Resource ''namespaces'') ''prod'',
           PatchCall (Resource ''namespaces'') ''prod'' StrategicMergePatchType
             ''strategic:Namespace/prod'' \<lparr>FieldManager = [], Force = None\<rparr>],
          [namespaceProd])"
proof -
  let ?E = "cluster_env accessor_of_value"
  have d1: "snd (Decode ?E [Inr (render configMap), Inr ''junk'']) \<noteq> None"
    and d2: "snd (Decode ?E [Inr (render namespaceProd)]) = None"
    by (simp_all add: batch_defs fixture_defs)
  have t: "\<not> isl (ToRESTMapper ?E (options False))"
    by (simp add: batch_defs cluster_env_def)
  have a2: "Apply ?E (options False) [Inr (render namespaceProd)] []
       = (Returns ([\<lparr>Name = ''prod'', Kind = ''Namespace'', ErrMessage = StatusError 409 ''conflict''\<rparr>], None),
          [GetCall (Resource ''namespaces'') ''prod'',
           PatchCall (Resource ''namespaces'') ''prod'' StrategicMergePatchType
             ''strategic:Namespace/prod'' \<lparr>FieldManager = [], Force = None\<rparr>],
          [namespaceProd])"
    by (simp add: run_defs fixture_defs batch_defs)
  have a1: "Apply ?E (options False) [Inr (render configMap), Inr ''junk''] []
       = (Returns ([], Some (ParsingSection 2 None)), [], [configMap])"
    by (simp add: batch_defs fixture_defs)
  from Apply_hard_error [of ?E "options False" "[Inr (render configMap), Inr ''junk'']" "[]"] d1
  have "\<exists>e us. Apply ?E (options False) [Inr (render configMap), Inr ''junk''] []
          = (Returns ([], Some e), [], us)"
    by blast
  with d1 d2 t a1 a2 show ?thesis by blast
qed

section \<open>A failed object in a batch\<close>

text \<open>
  Claim C1.  A batch of three documents whose second one has a generate-name and no name.
  The first document is created.  On the second, \<open>ApplyUnstructured\<close> returns a nil object
  with its error (or panics itself, when the metadata is nil), and \<open>Apply\<close> panics reading
  the name of the nil object: no failure record is returned and the third document is
  never applied.  The same happens when the second document fails at the server.
\<close>

theorem Apply_partial_failure_panics:
  "Apply (cluster_env accessor_of_pointer) (options False)
      [Inr (render configMap), Inr (render generated), Inr (render namespaceProd)] []
     = (Panic,
        [GetCall (Namespace (Resource ''configmaps'') ''default'') ''settings'',
         CreateCall (Namespace (Resource ''configmaps'') ''default'')
           (configMap\<lparr>GetNamespace := ''default'',
              GetAnnotations := [LastAppliedConfigAnnotation \<mapsto> ''ConfigMap/settings'']\<rparr>)],
        [configMap\<lparr>GetNamespace := ''default'',
              GetAnnotations := [LastAppliedConfigAnnotation \<mapsto> ''ConfigMap/settings'']\<rparr>,
         generated, namespaceProd])
   \<and> ApplyUnstructured (cluster_env accessor_of_pointer) cluster mapper 0 False (start generated)
     = (Returns (None, Some (CannotUseGenerateName ''job-'')), start generated)
   \<and> Apply (cluster_env accessor_of_value) (options False)
      [Inr (render configMap), Inr (render generated), Inr (render namespaceProd)] []
     = (Panic,
        [GetCall (Namespace (Resource ''configmaps'') ''default'') ''settings'',
         CreateCall (Namespace (Resource ''configmaps'') ''default'')
           (configMap\<lparr>GetNamespace := ''default'',
              GetAnnotations := [LastAppliedConfigAnnotation \<mapsto> ''ConfigMap/settings'']\<rparr>)],
        [configMap\<lparr>GetNamespace := ''default'',
              GetAnnotations := [LastAppliedConfigAnnotation \<mapsto> ''ConfigMap/settings'']\<rparr>,
         generated, namespaceProd])
   \<and> fst (Apply (cluster_env accessor_of_value) (options False)
      [Inr (render configMap), Inr (render secret), Inr (render namespaceProd)] []) = Panic"
  by (simp add: run_defs fixture_defs batch_defs)

section \<open>The payload of server-side apply\<close>

text \<open>
  Claim C2.  Server-side apply of an object that carries the last-applied annotation and
  managed fields.  The request has the field manager and the force flag, and the object is
  left stripped, but the payload is the serialization taken at line 136, before the
  stripping: it is the document with the annotation and the managed fields, not the
  serialization of the stripped object.
\<close>

theorem serverSideApply_sends_unstripped:
  "GetAnnotations widget LastAppliedConfigAnnotation = Some ''old''
   \<and> GetManagedFields widget = [''kubectl'']
   \<and> MarshalJSON (cluster_env accessor_of_value) widget = Inr ''Widget/w1+annotation+managedFields''
   \<and> MarshalJSON (cluster_env accessor_of_value) (stripped widget) = Inr ''Widget/w1''
   \<and> snd (ApplyUnstructured (cluster_env accessor_of_value) cluster mapper 0 True (start widget))
     = \<lparr>heap = (\<lambda>r. widget)(0 := stripped widget),
        calls = [PatchCall (Namespace (Resource ''widgets'') ''prod'') ''w1'' ApplyPatchType
                   ''Widget/w1+annotation+managedFields''
                   \<lparr>FieldManager = ''k8sutil'', Force = Some True\<rparr>]\<rparr>"
  by (simp add: run_defs fixture_defs)

section \<open>Further properties of the patch paths\<close>

text \<open>
  In server-side mode an error of the apply patch is returned as it is, unless it is a
  status error with the code 415, which is wrapped as "server-side apply not available on
  the server".
\<close>

theorem serverSideApply_unsupported:
  assumes "validate env (heap w u) = Returns None"
    and "resolve env restMapper u w = Inr (b, obj, gvk, dri, w1)"
    and "dc (calls w) (PatchCall dri (GetName (heap w u)) ApplyPatchType b
                         \<lparr>FieldManager = ''k8sutil'', Force = Some True\<rparr>) = (live, Some err)"
  shows "fst (ApplyUnstructured env dc restMapper u True w) =
           Returns (None, Some (if \<exists>msg. err = StatusError 415 msg
                                then ServerSideApplyNotAvailable err else err))"
proof -
  have i: "isIncompatibleServerError err = (\<exists>msg. err = StatusError 415 msg)"
    by (cases err) (auto simp: isIncompatibleServerError_def)
  from resolve_facts(1,2) [OF assms(2)] assms(3)
  have "dc (calls w1) (PatchCall dri (GetName (heap w1 u)) ApplyPatchType b
                         \<lparr>FieldManager = ''k8sutil'', Force = Some True\<rparr>) = (live, Some err)"
    by simp
  then have "fst (serverSideApply dc dri u b w1) =
           Returns (None, Some (if isIncompatibleServerError err
                                then ServerSideApplyNotAvailable err else err))"
    by (simp add: serverSideApply_result)
  with ApplyUnstructured_resolved [OF assms(1,2), of dc True] i show ?thesis by simp
qed

theorem serverSideApply_unsupported_witness:
  "fst (ApplyUnstructured (cluster_env accessor_of_value)
          (\<lambda>history c. (None, Some (StatusError 415 ''unsupported media type'')))
          mapper 0 True (start widget))
     = Returns (None, Some (ServerSideApplyNotAvailable (StatusError 415 ''unsupported media type'')))"
proof -
  let ?E = "cluster_env accessor_of_value"
  let ?dc = "\<lambda>history c. (None :: Unstructured option, Some (StatusError 415 ''unsupported media type''))"
  have v: "validate ?E (heap (start widget) 0) = Returns None"
    by (simp add: validate_def start_def widget_def)
  have r: "resolve ?E mapper 0 (start widget)
             = Inr (''Widget/w1+annotation+managedFields'', widget,
                    GroupVersionKind [] ''example.com/v1'' ''Widget'',
                    Namespace (Resource ''widgets'') ''prod'', start widget)"
    by (simp add: run_defs fixture_defs)
  have d: "?dc (calls (start widget))
             (PatchCall (Namespace (Resource ''widgets'') ''prod'') (GetName (heap (start widget) 0))
                ApplyPatchType ''Widget/w1+annotation+managedFields''
                \<lparr>FieldManager = ''k8sutil'', Force = Some True\<rparr>)
           = (None, Some (StatusError 415 ''unsupported media type''))"
    by simp
  from serverSideApply_unsupported [where dc = ?dc, OF v r d] show ?thesis by simp
qed

text \<open>
  For a kind the registry knows, \<open>Patch\<close> is the three-way strategic merge patch, computed
  with the patch metadata of the registered struct and with overwriting allowed; an error of
  either step is returned as it is.  A lookup error other than "not registered" is returned
  wrapped, and no patch is computed.
\<close>

theorem Patch_registered:
  assumes "MarshalJSON env currentUnstr = Inr current"
    and "GetOriginalConfiguration env currentUnstr = Inr original"
  shows "(Scheme_New env gvk = Inr versionedObject \<longrightarrow>
            Patch env currentUnstr modified nm gvk =
              (case NewPatchMetaFromStruct env versionedObject of
                 Inl err \<Rightarrow> Inl err
               | Inr lookupPatchMeta \<Rightarrow>
                   (case CreateThreeWayMergePatch env original modified current lookupPatchMeta True of
                      Inl err \<Rightarrow> Inl err
                    | Inr patch \<Rightarrow> Inr (patch, StrategicMergePatchType))))
       \<and> (Scheme_New env gvk = Inl e \<and> \<not> IsNotRegisteredError env e \<longrightarrow>
            Patch env currentUnstr modified nm gvk = Inl (GettingVersionedObject gvk e))"
  using assms by (simp add: Patch_def)

theorem Patch_registered_witness:
  "Scheme_New (cluster_env accessor_of_value) (GroupVersionKind [] ''v1'' ''ConfigMap'') = Inr ''ConfigMap''
   \<and> Patch (cluster_env accessor_of_value) configMap ''ConfigMap/settings'' ''settings''
        (GroupVersionKind [] ''v1'' ''ConfigMap'')
     = Inr (''strategic:ConfigMap/settings'', StrategicMergePatchType)"
proof -
  let ?E = "cluster_env accessor_of_value"
  have m: "MarshalJSON ?E configMap = Inr ''ConfigMap/settings''"
    and g: "GetOriginalConfiguration ?E configMap = Inr []"
    by (simp_all add: fixture_defs)
  have s: "Scheme_New ?E (GroupVersionKind [] ''v1'' ''ConfigMap'') = Inr ''ConfigMap''"
    by (simp add: cluster_env_def)
  from Patch_registered [OF m g, where gvk = "GroupVersionKind [] ''v1'' ''ConfigMap''"
      and versionedObject = "''ConfigMap''" and modified = "''ConfigMap/settings''"
      and nm = "''settings''"] s
  have "Patch ?E configMap ''ConfigMap/settings'' ''settings'' (GroupVersionKind [] ''v1'' ''ConfigMap'')
     = Inr (''strategic:ConfigMap/settings'', StrategicMergePatchType)"
    by (simp add: cluster_env_def)
  with s show ?thesis by blast
qed

end
